theory Spec2Isabelle
  imports Main "HOL-Library.Char_ord" "HOL-Library.List_Lexorder" "HOL-Library.Multiset"
begin

section \<open>Python values used by \<open>analyze_gitlab_comments.py\<close>\<close>

text \<open>
  Strings are lists of characters; a character stands for a code point below 256.
  Exceptions are values: every function of the source that can raise returns
  \<open>py_error + 'a\<close>, with \<open>Inl\<close> for the exception.
\<close>

text \<open>What a \<open>ValueError\<close> reports: the literal that \<open>int\<close> refused, the number of
  digits of a literal over the limit, or a NUL character in an argument of a
  subprocess.\<close>

datatype value_error =
    InvalidLiteral string
  | ExceedsDigitLimit nat
  | EmbeddedNullByte

datatype py_error =
    TypeError
  | IndexError
  | ValueError value_error
  | KeyError string
  | FileNotFoundError
  | UnicodeDecodeError

text \<open>\<open>s.startswith(p)\<close>\<close>

definition startswith :: "string \<Rightarrow> string \<Rightarrow> bool" where
  "startswith s p = (take (length p) s = p)"

text \<open>\<open>s.split(c)\<close> for a one-character separator: every occurrence of the
  separator cuts, empty fields are kept, and the result is never the empty list.\<close>

fun split_on :: "char \<Rightarrow> string \<Rightarrow> string list" where
  "split_on c [] = [[]]"
| "split_on c (x # xs) =
     (if x = c then [] # split_on c xs
      else (case split_on c xs of
              [] \<Rightarrow> [[x]]
            | w # ws \<Rightarrow> (x # w) # ws))"

text \<open>\<open>sep.join(xs)\<close>\<close>

fun join :: "string \<Rightarrow> string list \<Rightarrow> string" where
  "join sep [] = []"
| "join sep [x] = x"
| "join sep (x # y # ys) = x @ sep @ join sep (y # ys)"

text \<open>\<open>c.isspace()\<close> on the code points below 256: TAB, LF, VT, FF, CR, the four
  separators FS, GS, RS, US, the space, NEL and the no-break space.\<close>

definition isspace :: "char \<Rightarrow> bool" where
  "isspace c = (c \<in> set [CHR 0x09, CHR 0x0A, CHR 0x0B, CHR 0x0C, CHR 0x0D,
                          CHR 0x1C, CHR 0x1D, CHR 0x1E, CHR 0x1F, CHR 0x20,
                          CHR 0x85, CHR 0xA0])"

text \<open>\<open>s.strip()\<close>\<close>

definition strip :: "string \<Rightarrow> string" where
  "strip s = rev (dropWhile isspace (rev (dropWhile isspace s)))"

text \<open>\<open>int(s)\<close> in base 10. Leading whitespace is skipped, then one sign, then the
  run of digits and underscores is read: an underscore must stand between two digits,
  and a run of more than 4300 digits (the default limit of the interpreter) is refused
  before the rest of the string is looked at. After the run only whitespace may
  follow. The whitespace of \<open>int\<close> is narrower than that of \<open>isspace\<close>: the four
  separators FS, GS, RS, US are not skipped. \<open>ValueError\<close> reports the whole
  literal, or the number of digits when the limit is exceeded.\<close>

definition int_space :: "char \<Rightarrow> bool" where
  "int_space c = (c \<in> set [CHR 0x09, CHR 0x0A, CHR 0x0B, CHR 0x0C, CHR 0x0D, CHR 0x20,
                            CHR 0x85, CHR 0xA0])"

definition is_digit :: "char \<Rightarrow> bool" where
  "is_digit c = (c \<in> set ''0123456789'')"

definition digit_val :: "char \<Rightarrow> int" where
  "digit_val c = int (of_char c) - 48"

definition digits_value :: "string \<Rightarrow> int" where
  "digits_value ds = foldl (\<lambda>acc c. acc * 10 + digit_val c) 0 ds"

fun well_grouped :: "bool \<Rightarrow> string \<Rightarrow> bool" where
  "well_grouped after_digit [] = after_digit"
| "well_grouped after_digit (c # cs) =
     (if c = CHR ''_'' then after_digit \<and> well_grouped False cs
      else well_grouped True cs)"

definition int_max_str_digits :: nat where
  "int_max_str_digits = 4300"

definition py_int :: "string \<Rightarrow> py_error + int" where
  "py_int s =
     (let t = dropWhile int_space s;
          neg = (case t of [] \<Rightarrow> False | c # _ \<Rightarrow> c = CHR ''-'');
          signed = (case t of [] \<Rightarrow> False | c # _ \<Rightarrow> c = CHR ''-'' \<or> c = CHR ''+'');
          u = (if signed then drop 1 t else t);
          digit_run = takeWhile (\<lambda>c. is_digit c \<or> c = CHR ''_'') u;
          rest = dropWhile (\<lambda>c. is_digit c \<or> c = CHR ''_'') u;
          ds = filter is_digit digit_run
      in if \<not> well_grouped False digit_run then Inl (ValueError (InvalidLiteral s))
         else if int_max_str_digits < length ds
           then Inl (ValueError (ExceedsDigitLimit (length ds)))
         else if dropWhile int_space rest \<noteq> [] then Inl (ValueError (InvalidLiteral s))
         else Inr (if neg then - digits_value ds else digits_value ds))"

section \<open>The line resolver: \<open>extract_line_from_diff\<close>\<close>

text \<open>
  The two counters \<open>current_line_number_old\<close> and \<open>current_line_number_new\<close> start as
  \<open>None\<close>; \<open>+= 1\<close> on \<open>None\<close> raises \<open>TypeError\<close>.
\<close>

definition incr :: "int option \<Rightarrow> py_error + int option" where
  "incr c = (case c of None \<Rightarrow> Inl TypeError | Some n \<Rightarrow> Inr (Some (n + 1)))"

text \<open>The header branch: \<open>parts = line.split(' ')\<close>, then \<open>parts[1]\<close> and \<open>parts[2]\<close>
  (an \<open>IndexError\<close> when there are fewer than three fields), then
  \<open>int(info.split(',')[0][1:])\<close> for the old counter and for the new one, in this order.\<close>

definition header_counter :: "string \<Rightarrow> py_error + int" where
  "header_counter info = py_int (drop 1 (hd (split_on CHR '','' info)))"

definition parse_header :: "string \<Rightarrow> py_error + (int \<times> int)" where
  "parse_header line =
     (let parts = split_on CHR '' '' line in
      if length parts < 3 then Inl IndexError
      else (case header_counter (parts ! 1) of
              Inl e \<Rightarrow> Inl e
            | Inr old \<Rightarrow>
                (case header_counter (parts ! 2) of
                   Inl e \<Rightarrow> Inl e
                 | Inr new \<Rightarrow> Inr (old, new))))"

text \<open>The counter updates of the \<open>'new'\<close> branch and of the \<open>'old'\<close> branch for one
  content line. The result is the pair (old counter, new counter).\<close>

definition advance_new :: "string \<Rightarrow> int option \<Rightarrow> int option \<Rightarrow> py_error + (int option \<times> int option)" where
  "advance_new line old new =
     (if startswith line ''+'' then
        (case incr new of Inl e \<Rightarrow> Inl e | Inr new' \<Rightarrow> Inr (old, new'))
      else if \<not> startswith line ''-'' then
        (case incr new of
           Inl e \<Rightarrow> Inl e
         | Inr new' \<Rightarrow> (case incr old of Inl e \<Rightarrow> Inl e | Inr old' \<Rightarrow> Inr (old', new')))
      else Inr (old, new))"

definition advance_old :: "string \<Rightarrow> int option \<Rightarrow> int option \<Rightarrow> py_error + (int option \<times> int option)" where
  "advance_old line old new =
     (if startswith line ''-'' then
        (case incr old of Inl e \<Rightarrow> Inl e | Inr old' \<Rightarrow> Inr (old', new))
      else if \<not> startswith line ''+'' then
        (case incr old of
           Inl e \<Rightarrow> Inl e
         | Inr old' \<Rightarrow> (case incr new of Inl e \<Rightarrow> Inl e | Inr new' \<Rightarrow> Inr (old', new')))
      else Inr (old, new))"

text \<open>The \<open>for line in lines\<close> loop, with the two counters as arguments. \<open>Inr None\<close>
  is the final \<open>return None\<close>.\<close>

fun scan_lines :: "string list \<Rightarrow> int \<Rightarrow> string \<Rightarrow> int option \<Rightarrow> int option \<Rightarrow> py_error + string option" where
  "scan_lines [] line_number line_type old new = Inr None"
| "scan_lines (line # lines) line_number line_type old new =
     (if startswith line ''@@'' then
        (case parse_header line of
           Inl e \<Rightarrow> Inl e
         | Inr (old', new') \<Rightarrow> scan_lines lines line_number line_type (Some old') (Some new'))
      else if line_type = ''new'' then
        (case advance_new line old new of
           Inl e \<Rightarrow> Inl e
         | Inr (old', new') \<Rightarrow>
             if new' = Some line_number then Inr (Some (strip (drop 1 line)))
             else scan_lines lines line_number line_type old' new')
      else if line_type = ''old'' then
        (case advance_old line old new of
           Inl e \<Rightarrow> Inl e
         | Inr (old', new') \<Rightarrow>
             if old' = Some line_number then Inr (Some (strip (drop 1 line)))
             else scan_lines lines line_number line_type old' new')
      else scan_lines lines line_number line_type old new)"

definition extract_line_from_diff :: "string \<Rightarrow> int \<Rightarrow> string \<Rightarrow> py_error + string option" where
  "extract_line_from_diff diff_text line_number line_type =
     scan_lines (split_on CHR 0x0A diff_text) line_number line_type None None"

section \<open>More of Python's string functions\<close>

text \<open>\<open>s.splitlines()\<close>: a line ends at LF, VT, FF, FS, GS, RS, NEL, at CR, and at CR LF
  taken as one boundary; the boundaries are dropped and there is no empty last line.\<close>

definition is_linebreak :: "char \<Rightarrow> bool" where
  "is_linebreak c = (c \<in> set [CHR 0x0A, CHR 0x0B, CHR 0x0C, CHR 0x1C, CHR 0x1D, CHR 0x1E, CHR 0x85])"

fun splitlines_from :: "string \<Rightarrow> string \<Rightarrow> string list" where
  "splitlines_from cur [] = (if cur = [] then [] else [cur])"
| "splitlines_from cur (c # cs) =
     (if c = CHR 0x0D then
        (case cs of
           [] \<Rightarrow> [cur]
         | d # ds \<Rightarrow> if d = CHR 0x0A then cur # splitlines_from [] ds
                     else cur # splitlines_from [] (d # ds))
      else if is_linebreak c then cur # splitlines_from [] cs
      else splitlines_from (cur @ [c]) cs)"

definition splitlines :: "string \<Rightarrow> string list" where
  "splitlines s = splitlines_from [] s"

text \<open>\<open>str(n)\<close> for an integer, and the format specification \<open>:<w\<close> (pad with spaces
  on the right up to width \<open>w\<close>).\<close>

fun str_nat :: "nat \<Rightarrow> string" where
  "str_nat n =
     (if n < 10 then [char_of (48 + n)]
      else str_nat (n div 10) @ [char_of (48 + n mod 10)])"

definition str_int :: "int \<Rightarrow> string" where
  "str_int i = (if i < 0 then CHR ''-'' # str_nat (nat (- i)) else str_nat (nat i))"

definition ljust :: "nat \<Rightarrow> string \<Rightarrow> string" where
  "ljust w s = s @ replicate (w - length s) CHR '' ''"

section \<open>Diff retrieval: \<open>get_git_diff\<close>\<close>

text \<open>
  \<open>subprocess.run(command, capture_output=True, text=True, check=True)\<close> is the one
  external call. It completes with the standard output of git, or raises
  \<open>CalledProcessError\<close> (a non-zero exit status), or raises another exception:
  \<open>FileNotFoundError\<close> when git cannot be started, \<open>UnicodeDecodeError\<close> when
  the output is not text, \<open>ValueError\<close> for a NUL character in an argument. The
  call is a parameter \<open>run\<close> from the command line to this outcome. The function
  catches \<open>CalledProcessError\<close> only; any other exception leaves it.
\<close>

datatype proc_result = Completed string | CalledProcessError | Raised py_error

text \<open>The loop that counts the lines before the first line starting with \<open>@@\<close>.\<close>

fun count_meta :: "string list \<Rightarrow> nat \<Rightarrow> nat" where
  "count_meta [] start_line = start_line"
| "count_meta (line # lines) start_line =
     (if startswith line ''@@'' then start_line else count_meta lines (start_line + 1))"

definition git_command :: "string \<Rightarrow> string \<Rightarrow> string \<Rightarrow> string list" where
  "git_command base_sha head_sha path =
     [''git'', ''diff'', ''--color=never'', base_sha @ ''..'' @ head_sha, ''--'', path]"

definition get_git_diff ::
    "(string list \<Rightarrow> proc_result) \<Rightarrow> string \<Rightarrow> string \<Rightarrow> string \<Rightarrow> py_error + string option" where
  "get_git_diff run base_sha head_sha path =
     (case run (git_command base_sha head_sha path) of
        CalledProcessError \<Rightarrow> Inr None
      | Raised e \<Rightarrow> Inl e
      | Completed stdout \<Rightarrow>
          (let diff_lines = splitlines stdout;
               start_line = count_meta diff_lines 0
           in Inr (Some (join [CHR 0x0A] (drop start_line diff_lines)))))"

section \<open>Notes, positions and the normalizer \<open>filter_and_sort_notes\<close>\<close>

text \<open>One end of \<open>position['line_range']\<close>: the keys \<open>type\<close>, \<open>new_line\<close>, \<open>old_line\<close>,
  each of which may hold \<open>null\<close>.\<close>

record endpoint =
  ep_type :: "string option"
  new_line :: "int option"
  old_line :: "int option"

record line_range =
  lr_start :: endpoint
  lr_end :: endpoint

record anchor_position =
  base_sha :: string
  head_sha :: string
  new_path :: string
  line_range :: "line_range option"

text \<open>A note of a discussion. \<open>author_username\<close> is \<open>note['author']['username']\<close>;
  \<open>position\<close> is \<open>note.get('position')\<close>, \<open>None\<close> when the key is missing or null.\<close>

record discussion_note =
  note_id :: int
  author_username :: string
  created_at :: string
  body :: string
  system :: bool
  position :: "anchor_position option"

text \<open>\<open>not reviewer_username\<close>: \<open>None\<close> and the empty string are both false.\<close>

definition falsy :: "string option \<Rightarrow> bool" where
  "falsy s = (s = None \<or> s = Some [])"

text \<open>\<open>sorted(conversation, key=itemgetter('created_at'))\<close> compares the
  \<open>created_at\<close> strings, character by character, and is stable; \<open>sort_key\<close> is the
  stable insertion sort on the same order.\<close>

definition filter_and_sort_notes :: "string option \<Rightarrow> string option \<Rightarrow> discussion_note list \<Rightarrow> discussion_note list" where
  "filter_and_sort_notes reviewer_username reviewed_username notes =
     (if list_all (\<lambda>n. Some (author_username n) = reviewed_username) notes then []
      else sort_key created_at
             (filter (\<lambda>n. (falsy reviewer_username \<or> Some (author_username n) = reviewer_username)
                           \<and> \<not> system n) notes))"

section \<open>Conversation records and the pipeline \<open>extract_gitlab_conversations\<close>\<close>

text \<open>\<open>data['discussion_range']\<close>: two sides, each with the keys \<open>line\<close> and \<open>type\<close>.\<close>

record range_side =
  side_line :: "int option"
  side_type :: "string option"

record resolved_range =
  dr_start :: range_side
  dr_end :: range_side

definition unset_range :: resolved_range where
  "unset_range = \<lparr>dr_start = \<lparr>side_line = None, side_type = None\<rparr>,
                  dr_end = \<lparr>side_line = None, side_type = None\<rparr>\<rparr>"

text \<open>An entry of \<open>data['notes']\<close>, built by \<open>get_notes\<close>.\<close>

record out_note =
  out_created_at :: string
  reviewer :: string
  out_body :: string

text \<open>The dictionary \<open>data\<close>. In \<open>analyze\<close>, \<open>None\<close> stands for a dictionary without
  the key \<open>'analyze'\<close>: the key is only ever set to the answer of the summarizer.\<close>

record conversation_record =
  conversation_link :: string
  first_note_date :: string
  note_count :: nat
  reviewers :: string
  data_notes :: "out_note list"
  diff_text :: "string option"
  discussion_range :: resolved_range
  analyze :: "string option"

text \<open>
  What the pipeline takes from outside: the URL of the project, the library call
  \<open>datetime.strptime(at, ...).strftime(...)\<close> of \<open>convert_time_format\<close> (it raises
  on a timestamp of another format), the order in which a Python set of user names is
  iterated, and the git subprocess.
\<close>

record env =
  project_web_url :: string
  convert_time_format :: "string \<Rightarrow> py_error + string"
  set_order :: "string list \<Rightarrow> string list"
  run_git :: "string list \<Rightarrow> proc_result"

definition endpoint_line_and_type :: "endpoint \<Rightarrow> int option \<times> string option" where
  "endpoint_line_and_type position_side =
     (if ep_type position_side = Some ''new'' then new_line position_side
      else old_line position_side,
      ep_type position_side)"

text \<open>\<open>first_note_position['line_range'][direction]\<close> raises \<open>TypeError\<close> when
  \<open>line_range\<close> is null and \<open>KeyError\<close> for a direction other than the two keys.\<close>

definition get_line_and_type_from_position ::
    "anchor_position \<Rightarrow> string \<Rightarrow> py_error + (int option \<times> string option)" where
  "get_line_and_type_from_position first_note_position direction =
     (case line_range first_note_position of
        None \<Rightarrow> Inl TypeError
      | Some lr \<Rightarrow>
          if direction = ''start'' then Inr (endpoint_line_and_type (lr_start lr))
          else if direction = ''end'' then Inr (endpoint_line_and_type (lr_end lr))
          else Inl (KeyError direction))"

fun get_notes :: "env \<Rightarrow> discussion_note list \<Rightarrow> py_error + out_note list" where
  "get_notes E [] = Inr []"
| "get_notes E (n # ns) =
     (case convert_time_format E (created_at n) of
        Inl e \<Rightarrow> Inl e
      | Inr t \<Rightarrow>
          (case get_notes E ns of
             Inl e \<Rightarrow> Inl e
           | Inr rest \<Rightarrow>
               Inr (\<lparr>out_created_at = t, reviewer = author_username n, out_body = body n\<rparr> # rest)))"

text \<open>\<open>collect_conversation_data\<close> returns the first four keys; the other fields
  of the record are filled by the caller.\<close>

definition collect_conversation_data :: "env \<Rightarrow> discussion_note list \<Rightarrow> py_error + conversation_record" where
  "collect_conversation_data E conversation =
     (case conversation of
        [] \<Rightarrow> Inl IndexError
      | first # _ \<Rightarrow>
          (case convert_time_format E (created_at first) of
             Inl e \<Rightarrow> Inl e
           | Inr d \<Rightarrow>
               Inr \<lparr>conversation_link = ''#note_'' @ str_int (note_id first),
                    first_note_date = d,
                    note_count = length conversation,
                    reviewers = join '', '' (set_order E (map author_username conversation)),
                    data_notes = [],
                    diff_text = None,
                    discussion_range = unset_range,
                    analyze = None\<rparr>))"

text \<open>The body of \<open>for discussion in discussions\<close>: \<open>Inr None\<close> when the conversation is
  empty and nothing is appended, \<open>Inr (Some data)\<close> for the appended record.\<close>

definition process_discussion ::
    "env \<Rightarrow> string option \<Rightarrow> string option \<Rightarrow> int \<Rightarrow> discussion_note list
       \<Rightarrow> py_error + conversation_record option" where
  "process_discussion E reviewer_username reviewed_username mr_iid discussion =
     (let conversation = filter_and_sort_notes reviewer_username reviewed_username discussion in
      case conversation of
        [] \<Rightarrow> Inr None
      | first # _ \<Rightarrow>
          (case collect_conversation_data E conversation of
             Inl e \<Rightarrow> Inl e
           | Inr data0 \<Rightarrow>
               (case get_notes E conversation of
                  Inl e \<Rightarrow> Inl e
                | Inr ns \<Rightarrow>
                    (let data = data0
                           \<lparr>conversation_link :=
                              project_web_url E @ ''/-/merge_requests/'' @ str_int mr_iid
                                @ ''/'' @ conversation_link data0,
                            data_notes := ns,
                            diff_text := None,
                            discussion_range := unset_range\<rparr>
                     in case position first of
                          None \<Rightarrow> Inr (Some data)
                        | Some first_note_position \<Rightarrow>
                            (case get_git_diff (run_git E)
                                    (base_sha first_note_position)
                                    (head_sha first_note_position)
                                    (new_path first_note_position) of
                               Inl e \<Rightarrow> Inl e
                             | Inr git_diff \<Rightarrow>
                                 (let data' = (if git_diff \<noteq> None \<and> git_diff \<noteq> Some []
                                               then data\<lparr>diff_text := git_diff\<rparr> else data)
                                  in case get_line_and_type_from_position first_note_position ''start'' of
                                       Inl e \<Rightarrow> Inl e
                                     | Inr (start_line, start_line_type) \<Rightarrow>
                                         (case get_line_and_type_from_position first_note_position ''end'' of
                                            Inl e \<Rightarrow> Inl e
                                          | Inr (end_line, end_line_type) \<Rightarrow>
                                              Inr (Some (data'
                                                \<lparr>discussion_range :=
                                                   \<lparr>dr_start = \<lparr>side_line = start_line, side_type = start_line_type\<rparr>,
                                                    dr_end = \<lparr>side_line = end_line, side_type = end_line_type\<rparr>\<rparr>\<rparr>)))))))))"

fun process_discussions ::
    "env \<Rightarrow> string option \<Rightarrow> string option \<Rightarrow> int \<Rightarrow> discussion_note list list
       \<Rightarrow> py_error + conversation_record list" where
  "process_discussions E reviewer_username reviewed_username mr_iid [] = Inr []"
| "process_discussions E reviewer_username reviewed_username mr_iid (discussion # rest) =
     (case process_discussion E reviewer_username reviewed_username mr_iid discussion of
        Inl e \<Rightarrow> Inl e
      | Inr r \<Rightarrow>
          (case process_discussions E reviewer_username reviewed_username mr_iid rest of
             Inl e \<Rightarrow> Inl e
           | Inr rs \<Rightarrow> Inr ((case r of None \<Rightarrow> [] | Some data \<Rightarrow> [data]) @ rs)))"

record merge_request =
  iid :: int
  user_notes_count :: nat
  discussions :: "discussion_note list list"

fun process_merge_requests ::
    "env \<Rightarrow> string option \<Rightarrow> string option \<Rightarrow> merge_request list
       \<Rightarrow> py_error + conversation_record list" where
  "process_merge_requests E reviewer_username reviewed_username [] = Inr []"
| "process_merge_requests E reviewer_username reviewed_username (mr # mrs) =
     (case (if user_notes_count mr = 0 then Inr []
            else process_discussions E reviewer_username reviewed_username (iid mr) (discussions mr)) of
        Inl e \<Rightarrow> Inl e
      | Inr rs \<Rightarrow>
          (case process_merge_requests E reviewer_username reviewed_username mrs of
             Inl e \<Rightarrow> Inl e
           | Inr rest \<Rightarrow> Inr (rs @ rest)))"

text \<open>The \<open>while True\<close> loop asks for page 1, 2, ... and stops at the first empty page;
  \<open>pages\<close> lists the answers of the hosting API in this order.\<close>

definition extract_gitlab_conversations ::
    "env \<Rightarrow> string option \<Rightarrow> string option \<Rightarrow> merge_request list list
       \<Rightarrow> py_error + conversation_record list" where
  "extract_gitlab_conversations E reviewer_username reviewed_username pages =
     process_merge_requests E reviewer_username reviewed_username
       (concat (takeWhile (\<lambda>merge_requests. merge_requests \<noteq> []) pages))"

section \<open>Summaries and output: \<open>print_analyze\<close> and \<open>print_to_csv\<close>\<close>

text \<open>
  \<open>analyze_review_discussion\<close> calls the completion service; it is a parameter
  \<open>summarize\<close> that returns \<open>Inr\<close> the answer or \<open>Inl\<close> the text of the exception
  it raised. The first loop of \<open>print_analyze\<close> runs it in \<open>try\<close>/\<open>except Exception\<close>
  for each record: on an exception it prints a message and leaves the record as it is.
  The result is the updated list and the printed lines.
\<close>

definition conversation_text :: "out_note list \<Rightarrow> string" where
  "conversation_text ns = join [CHR 0x0A] (map (\<lambda>n. reviewer n @ '': '' @ out_body n) ns)"

fun analyze_loop ::
    "(string \<Rightarrow> string option \<Rightarrow> resolved_range \<Rightarrow> string + string)
       \<Rightarrow> conversation_record list \<Rightarrow> conversation_record list \<times> string list" where
  "analyze_loop summarize [] = ([], [])"
| "analyze_loop summarize (data # rest) =
     (let (rest', out) = analyze_loop summarize rest in
      case summarize (conversation_text (data_notes data)) (diff_text data) (discussion_range data) of
        Inl e \<Rightarrow> (data # rest', (''print_analyze error: '' @ [CHR 0x22] @ e @ [CHR 0x22]) # out)
      | Inr answer \<Rightarrow> (data\<lparr>analyze := Some answer\<rparr> # rest', out))"

text \<open>The table: a header line, then one line for each record. \<open>data['analyze']\<close>
  raises \<open>KeyError\<close> on a record without the key; the lines printed before stay
  printed.\<close>

definition table_header :: string where
  "table_header = CHR 0x0A # ljust 75 ''MR IID'' @ '' '' @ ljust 28 ''First Note Date'' @ '' ''
       @ ljust 3 ''Note Count'' @ '' '' @ ljust 40 ''Analyze'' @ '' '' @ ''Reviewers''"

definition table_row :: "conversation_record \<Rightarrow> string \<Rightarrow> string" where
  "table_row data a =
     ljust 75 (conversation_link data) @ '' '' @ ljust 25 (first_note_date data) @ '' ''
       @ ljust 3 (str_int (int (note_count data))) @ '' '' @ ljust 40 a @ '' '' @ reviewers data"

fun print_rows :: "conversation_record list \<Rightarrow> string list \<times> py_error option" where
  "print_rows [] = ([], None)"
| "print_rows (data # rest) =
     (case analyze data of
        None \<Rightarrow> ([], Some (KeyError ''analyze''))
      | Some a \<Rightarrow> (let (out, err) = print_rows rest in (table_row data a # out, err)))"

text \<open>\<open>print_to_csv\<close>: the rows written to the file, and the exception that stopped
  the writing, if any.\<close>

fun csv_rows :: "conversation_record list \<Rightarrow> string list list \<times> py_error option" where
  "csv_rows [] = ([], None)"
| "csv_rows (data # rest) =
     (case analyze data of
        None \<Rightarrow> ([], Some (KeyError ''analyze''))
      | Some a \<Rightarrow>
          (let (out, err) = csv_rows rest in
           ([conversation_link data, first_note_date data, str_int (int (note_count data)),
             a, reviewers data] # out, err)))"

definition print_to_csv :: "conversation_record list \<Rightarrow> string list list \<times> py_error option" where
  "print_to_csv conversation_data =
     (let (out, err) = csv_rows conversation_data in
      ([''MR IID'', ''First Note Date'', ''Note Count'', ''Analyze'', ''Reviewers''] # out, err))"

text \<open>\<open>print_analyze\<close>: the records after the first loop, what was printed, the
  CSV file (its name and rows) when \<open>print_to_csv\<close> was reached, and the exception
  that left the function, if any.\<close>

record analyze_result =
  records :: "conversation_record list"
  printed :: "string list"
  csv_file :: "(string \<times> string list list) option"
  raised :: "py_error option"

definition print_analyze ::
    "(string \<Rightarrow> string option \<Rightarrow> resolved_range \<Rightarrow> string + string)
       \<Rightarrow> conversation_record list \<Rightarrow> string \<Rightarrow> analyze_result" where
  "print_analyze summarize conversation_data result_csv_file =
     (let (data, log) = analyze_loop summarize conversation_data;
          (rows, err) = print_rows data
      in case err of
           Some e \<Rightarrow>
             \<lparr>records = data, printed = log @ [table_header] @ rows, csv_file = None,
              raised = Some e\<rparr>
         | None \<Rightarrow>
             if result_csv_file \<noteq> [] then
               (let (csv, err') = print_to_csv data in
                \<lparr>records = data, printed = log @ [table_header] @ rows,
                 csv_file = Some (result_csv_file, csv), raised = err'\<rparr>)
             else \<lparr>records = data, printed = log @ [table_header] @ rows, csv_file = None,
                   raised = None\<rparr>)"

section \<open>The inputs of the examples\<close>

text \<open>The notes of the example: the later note is listed first.\<close>

definition note_A :: discussion_note where
  "note_A = \<lparr>note_id = 1, author_username = ''A'', created_at = ''2024-01-01T00:00:02.000Z'',
             body = ''second'', system = False, position = None\<rparr>"

definition note_B :: discussion_note where
  "note_B = \<lparr>note_id = 2, author_username = ''B'', created_at = ''2024-01-01T00:00:01.000Z'',
             body = ''first'', system = False, position = None\<rparr>"

text \<open>An anchor on the new side, lines 50 to 51, and a note of author \<open>A\<close> that carries it.\<close>

definition example_range :: line_range where
  "example_range =
     \<lparr>lr_start = \<lparr>ep_type = Some ''new'', new_line = Some 50, old_line = None\<rparr>,
      lr_end = \<lparr>ep_type = Some ''new'', new_line = Some 51, old_line = None\<rparr>\<rparr>"

definition example_position :: anchor_position where
  "example_position =
     \<lparr>base_sha = ''aaa'', head_sha = ''bbb'', new_path = ''f.py'',
      line_range = Some example_range\<rparr>"

definition note_P :: discussion_note where
  "note_P = \<lparr>note_id = 3, author_username = ''A'', created_at = ''2024-01-01T00:00:00.000Z'',
             body = ''why'', system = False, position = Some example_position\<rparr>"

text \<open>An environment whose git subprocess always has the given outcome; the time
  conversion hands the timestamp back and the set of names is iterated in listing order.\<close>

definition example_env :: "proc_result \<Rightarrow> env" where
  "example_env outcome =
     \<lparr>project_web_url = ''https://gitlab.example.com/g/p'',
      convert_time_format = Inr,
      set_order = remdups,
      run_git = (\<lambda>command. outcome)\<rparr>"


text \<open>A record as the pipeline leaves it, before any summary.\<close>

definition example_record :: "string \<Rightarrow> conversation_record" where
  "example_record link =
     \<lparr>conversation_link = link, first_note_date = ''01-01-2024 00:00:00.000000'',
      note_count = 1, reviewers = ''A'',
      data_notes = [\<lparr>out_created_at = ''01-01-2024 00:00:00.000000'', reviewer = ''A'',
                     out_body = ''why''\<rparr>],
      diff_text = None, discussion_range = unset_range, analyze = None\<rparr>"

text \<open>A summarizer that fails on the conversation \<open>A: why\<close> and answers every other one.\<close>

definition example_summarize :: "string \<Rightarrow> string option \<Rightarrow> resolved_range \<Rightarrow> string + string" where
  "example_summarize conversation diff rng =
     (if conversation = ''A: why'' then Inl ''rate limit'' else Inr ''use a constant'')"

section \<open>The specification's wording, for comparison\<close>

text \<open>
  The specification computes the resolved range by running the line resolver on the
  diff text for each end of the anchor: an end that the resolver finds keeps its line
  and side, an end that it does not find is unset.
\<close>

definition resolve_endpoint_spec :: "string \<Rightarrow> endpoint \<Rightarrow> range_side" where
  "resolve_endpoint_spec diff position_side =
     (case endpoint_line_and_type position_side of
        (Some n, Some ty) \<Rightarrow>
          (case extract_line_from_diff diff n ty of
             Inr (Some found) \<Rightarrow> \<lparr>side_line = Some n, side_type = Some ty\<rparr>
           | _ \<Rightarrow> \<lparr>side_line = None, side_type = None\<rparr>)
      | _ \<Rightarrow> \<lparr>side_line = None, side_type = None\<rparr>)"

definition resolved_range_spec :: "string \<Rightarrow> line_range \<Rightarrow> resolved_range" where
  "resolved_range_spec diff lr =
     \<lparr>dr_start = resolve_endpoint_spec diff (lr_start lr),
      dr_end = resolve_endpoint_spec diff (lr_end lr)\<rparr>"

text \<open>The specification takes the anchor from the first note, in the order of the
  listing and before any filter, that carries one.\<close>

definition anchor_spec :: "discussion_note list \<Rightarrow> anchor_position option" where
  "anchor_spec discussion =
     (case filter (\<lambda>n. position n \<noteq> None) discussion of
        [] \<Rightarrow> None
      | n # _ \<Rightarrow> position n)"

text \<open>The diff of the examples: one hunk header and three content lines.\<close>

definition example_diff :: string where
  "example_diff =
     join [CHR 0x0A] [''@@ -10,3 +10,4 @@'', '' context1'', ''+added1'', '' context2'']"

text \<open>An output of \<open>git diff\<close> for the example: four lines of meta information, the
  hunk, and the final line break.\<close>

definition raw_git_output :: string where
  "raw_git_output =
     join [CHR 0x0A] [''diff --git a/f.py b/f.py'', ''index 1..2 100644'', ''--- a/f.py'',
                      ''+++ b/f.py'', example_diff, []]"

section \<open>Facts about the string functions\<close>

lemma split_on_not_Nil: "split_on c s \<noteq> []"
  by (induction s) (auto split: list.splits)

lemma startswith_length: "startswith l p \<Longrightarrow> length p \<le> length l"
  unfolding startswith_def by (metis length_take min.cobounded1)

lemma startswith_append: "startswith l p \<Longrightarrow> startswith (l @ r) p"
  using startswith_length [of l p] by (simp add: startswith_def)

lemma startswith_join: "startswith l p \<Longrightarrow> startswith (join sep (l # ls)) p"
  by (cases ls) (simp_all add: startswith_append)



lemma count_meta_takeWhile:
  "count_meta ls k = k + length (takeWhile (\<lambda>l. \<not> startswith l ''@@'') ls)"
  by (induction ls arbitrary: k) auto

lemma drop_count_meta:
  "drop (count_meta ls 0) ls = dropWhile (\<lambda>l. \<not> startswith l ''@@'') ls"
  by (simp add: count_meta_takeWhile dropWhile_eq_drop)

lemma get_notes_ok:
  "\<forall>n\<in>set ns. \<exists>t. convert_time_format E (created_at n) = Inr t
     \<Longrightarrow> \<exists>out. get_notes E ns = Inr out"
  by (induction ns) auto

section \<open>Facts about one discussion\<close>

text \<open>When the first note of the conversation carries a position with a line range and
  \<open>get_git_diff\<close> returns, the record is produced, its diff text is the output of
  \<open>get_git_diff\<close> unless that is absent or empty, and its range is read from the two
  ends of the line range. When \<open>get_git_diff\<close> raises, so does the pipeline.\<close>

lemma process_discussion_position:
  assumes conv: "filter_and_sort_notes rv rd d = first # rest"
      and times: "\<forall>n\<in>set (first # rest). \<exists>t. convert_time_format E (created_at n) = Inr t"
      and pos: "position first = Some p"
      and lr: "line_range p = Some lr"
      and git: "get_git_diff (run_git E) (base_sha p) (head_sha p) (new_path p) = Inr g"
  shows "\<exists>r. process_discussion E rv rd mr d = Inr (Some r)
           \<and> diff_text r = (case g of None \<Rightarrow> None | Some t \<Rightarrow> if t = [] then None else Some t)
           \<and> discussion_range r =
               \<lparr>dr_start =
                  \<lparr>side_line = (if ep_type (lr_start lr) = Some ''new''
                                 then new_line (lr_start lr) else old_line (lr_start lr)),
                   side_type = ep_type (lr_start lr)\<rparr>,
                dr_end =
                  \<lparr>side_line = (if ep_type (lr_end lr) = Some ''new''
                                 then new_line (lr_end lr) else old_line (lr_end lr)),
                   side_type = ep_type (lr_end lr)\<rparr>\<rparr>"
proof -
  from times obtain t0 where t0: "convert_time_format E (created_at first) = Inr t0"
    by auto
  from get_notes_ok [OF times] obtain out where out: "get_notes E (first # rest) = Inr out" ..
  show ?thesis
    unfolding process_discussion_def
    by (simp add: conv t0 out pos lr git collect_conversation_data_def
          get_line_and_type_from_position_def endpoint_line_and_type_def Let_def
          del: get_notes.simps split: option.splits)
qed

lemma process_discussion_no_position:
  assumes conv: "filter_and_sort_notes rv rd d = first # rest"
      and times: "\<forall>n\<in>set (first # rest). \<exists>t. convert_time_format E (created_at n) = Inr t"
      and pos: "position first = None"
  shows "\<exists>r. process_discussion E rv rd mr d = Inr (Some r)
           \<and> diff_text r = None \<and> discussion_range r = unset_range"
proof -
  from times obtain t0 where t0: "convert_time_format E (created_at first) = Inr t0"
    by auto
  from get_notes_ok [OF times] obtain out where out: "get_notes E (first # rest) = Inr out" ..
  show ?thesis
    unfolding process_discussion_def
    by (simp add: conv t0 out pos collect_conversation_data_def Let_def del: get_notes.simps)
qed

lemma process_discussion_git_raises:
  assumes conv: "filter_and_sort_notes rv rd d = first # rest"
      and times: "\<forall>n\<in>set (first # rest). \<exists>t. convert_time_format E (created_at n) = Inr t"
      and pos: "position first = Some p"
      and git: "get_git_diff (run_git E) (base_sha p) (head_sha p) (new_path p) = Inl e"
  shows "process_discussion E rv rd mr d = Inl e"
proof -
  from times obtain t0 where t0: "convert_time_format E (created_at first) = Inr t0"
    by auto
  from get_notes_ok [OF times] obtain out where out: "get_notes E (first # rest) = Inr out" ..
  show ?thesis
    unfolding process_discussion_def
    by (simp add: conv t0 out pos git collect_conversation_data_def Let_def
          del: get_notes.simps)
qed

lemma process_discussions_step:
  "process_discussion E rv rd mr d = Inr (Some r) \<Longrightarrow>
   process_discussions E rv rd mr (d # ds) =
     (case process_discussions E rv rd mr ds of Inl e \<Rightarrow> Inl e | Inr rs \<Rightarrow> Inr (r # rs))"
  by (simp split: sum.splits)

lemma example_times:
  "\<forall>n\<in>set ns. \<exists>t. convert_time_format (example_env outcome) (created_at n) = Inr t"
  by (simp add: example_env_def)

section \<open>Facts about the line resolver\<close>

text \<open>Once both counters are set, the loop raises only at a header that does not
  parse: when every header among the remaining lines parses, the loop returns.\<close>

lemma scan_lines_returns:
  "\<forall>l\<in>set lines. startswith l ''@@'' \<longrightarrow> (\<exists>cs. parse_header l = Inr cs)
     \<Longrightarrow> \<exists>r. scan_lines lines n ty (Some a) (Some b) = Inr r"
proof (induction lines arbitrary: a b)
  case Nil
  then show ?case by simp
next
  case (Cons l ls)
  then have ih: "\<And>a b. \<exists>r. scan_lines ls n ty (Some a) (Some b) = Inr r" by simp
  show ?case
  proof (cases "startswith l ''@@''")
    case True
    with Cons.prems obtain a' b' where "parse_header l = Inr (a', b')" by auto
    with True ih [of a' b'] show ?thesis by simp
  next
    case False
    then show ?thesis
      using ih [of a b] ih [of a "b + 1"] ih [of "a + 1" b] ih [of "a + 1" "b + 1"]
      by (auto simp: advance_new_def advance_old_def incr_def)
  qed
qed

text \<open>The comparison also runs on a line of the other side, which leaves the counter
  as it is: directly after a header, an added line answers the old side and a removed
  line answers the new side, at the start number of the header.\<close>

lemma wrong_side_line_after_header:
  "extract_line_from_diff ''@@ -10,0 +10,1 @@\<newline>+added1'' 10 ''old'' = Inr (Some ''added1'')
   \<and> extract_line_from_diff ''@@ -10,1 +10,0 @@\<newline>-removed1'' 10 ''new'' = Inr (Some ''removed1'')"
  by code_simp

text \<open>\<open>int\<close> does not skip the separator FS that \<open>strip\<close> removes, and it skips the
  no-break space: a header whose counter starts with FS is refused.\<close>

lemma int_keeps_separators:
  "py_int (CHR 0x1C # ''10'') = Inl (ValueError (InvalidLiteral (CHR 0x1C # ''10'')))
   \<and> strip (CHR 0x1C # ''10'') = ''10''
   \<and> py_int (CHR 0xA0 # ''10'') = Inr 10
   \<and> extract_line_from_diff (''@@ -'' @ CHR 0x1C # ''10,3 +10,4 @@\<newline> context1'') 11 ''new''
       = Inl (ValueError (InvalidLiteral (CHR 0x1C # ''10'')))"
  by code_simp

section \<open>The line resolver on the example diff\<close>

text \<open>
  C1. The claim: on the diff \<open>@@ -10,3 +10,4 @@\<close>, \<open> context1\<close>, \<open>+added1\<close>,
  \<open> context2\<close>, the new side at line 11 resolves to \<open>added1\<close> and the old side at
  line 11 is not found. The function adds one to the counters before it compares, so
  the first content line already carries the number 11 on both sides: both queries
  return \<open>context1\<close>.
\<close>

theorem extract_line_example_line_11:
  "extract_line_from_diff example_diff 11 ''new'' = Inr (Some ''context1'')
   \<and> extract_line_from_diff example_diff 11 ''old'' = Inr (Some ''context1'')"
  by code_simp

text \<open>
  C2. The claim: on the same diff, line 10 resolves to \<open>context1\<close> on the old side and
  on the new side, the first content line being matched at the counters of the header.
  The function never compares the counters of the header themselves: after the first
  content line they are 11, and line 10 is not found on either side.
\<close>

theorem extract_line_example_line_10:
  "extract_line_from_diff example_diff 10 ''old'' = Inr None
   \<and> extract_line_from_diff example_diff 10 ''new'' = Inr None"
  by code_simp

text \<open>
  C7. The claim: the resolver returns a line text or the absent value for every diff
  text, the empty string included, and never raises. On the empty string
  \<open>split\<close> yields one empty line; it is a content line met before any header, so
  the counters are still \<open>None\<close> and \<open>+= 1\<close> raises \<open>TypeError\<close>, for every target
  line and on both sides.
\<close>

theorem extract_line_empty_diff_raises:
  "extract_line_from_diff [] n ''new'' = Inl TypeError
   \<and> extract_line_from_diff [] n ''old'' = Inl TypeError"
  by (simp add: extract_line_from_diff_def advance_new_def advance_old_def
        startswith_def incr_def)

section \<open>Summaries that fail\<close>

text \<open>
  C6. The claim: when the summarizer fails for one record, the failure is caught, the
  record keeps no summary, and the later records are summarized, printed and written
  to the CSV file. On a batch of two records where the summarizer fails for the first,
  the failure is caught and the second record gets its summary, but the table then
  reads \<open>data['analyze']\<close> of the first record: \<open>KeyError\<close> leaves \<open>print_analyze\<close>
  after the header line, no row is printed and \<open>print_to_csv\<close> is not reached.
\<close>

theorem print_analyze_failed_summary_raises:
  "print_analyze example_summarize
     [example_record ''l1'', (example_record ''l2'')\<lparr>data_notes := []\<rparr>] ''out.csv'' =
   \<lparr>records = [example_record ''l1'',
               (example_record ''l2'')\<lparr>data_notes := [], analyze := Some ''use a constant''\<rparr>],
    printed = [''print_analyze error: '' @ [CHR 0x22] @ ''rate limit'' @ [CHR 0x22], table_header],
    csv_file = None,
    raised = Some (KeyError ''analyze'')\<rparr>"
  by code_simp

section \<open>The order of the notes\<close>

text \<open>
  C9. For every list of notes the normalizer returns the kept notes (none when every
  author is the reviewed user; otherwise the notes that pass the reviewer filter and are
  not system notes) in ascending order of \<open>created_at\<close>, and notes with the same
  \<open>created_at\<close> stay in the order of the listing. For the two notes of the example,
  \<open>A\<close> created after \<open>B\<close>, the result is \<open>B\<close> then \<open>A\<close> for both input orders.
\<close>

theorem filter_and_sort_notes_ordered:
  "sorted (map created_at (filter_and_sort_notes rv rd ns))
   \<and> mset (filter_and_sort_notes rv rd ns) =
       mset (if list_all (\<lambda>n. Some (author_username n) = rd) ns then []
             else filter (\<lambda>n. (falsy rv \<or> Some (author_username n) = rv) \<and> \<not> system n) ns)
   \<and> (\<forall>k. filter (\<lambda>n. created_at n = k) (filter_and_sort_notes rv rd ns) =
            filter (\<lambda>n. created_at n = k)
              (if list_all (\<lambda>n. Some (author_username n) = rd) ns then []
               else filter (\<lambda>n. (falsy rv \<or> Some (author_username n) = rv) \<and> \<not> system n) ns))
   \<and> filter_and_sort_notes None rd [note_A, note_B] = [note_B, note_A]
   \<and> filter_and_sort_notes None rd [note_B, note_A] = [note_B, note_A]"
proof -
  have ex: "filter_and_sort_notes None rd [note_A, note_B] = [note_B, note_A]"
           "filter_and_sort_notes None rd [note_B, note_A] = [note_B, note_A]"
    by (auto simp: filter_and_sort_notes_def note_A_def note_B_def falsy_def)
  show ?thesis
    by (simp add: ex) (simp add: filter_and_sort_notes_def sort_key_stable)
qed

theorem filter_and_sort_notes_ordered_witness:
  "sorted (map created_at (filter_and_sort_notes (Some ''B'') (Some ''A'') [note_A, note_P, note_B]))
   \<and> filter_and_sort_notes (Some ''B'') (Some ''A'') [note_A, note_P, note_B] = [note_B]
   \<and> filter_and_sort_notes None (Some ''A'') [note_A, note_P, note_B] = [note_P, note_B, note_A]
   \<and> filter_and_sort_notes None (Some ''A'') [note_A, note_B] = [note_B, note_A]"
proof -
  have eval:
    "filter_and_sort_notes (Some ''B'') (Some ''A'') [note_A, note_P, note_B] = [note_B]
     \<and> filter_and_sort_notes None (Some ''A'') [note_A, note_P, note_B] = [note_P, note_B, note_A]
     \<and> filter_and_sort_notes None (Some ''A'') [note_A, note_B] = [note_B, note_A]"
    by code_simp
  from filter_and_sort_notes_ordered [of "Some ''B''" "Some ''A''" "[note_A, note_P, note_B]"] eval
  show ?thesis by fast
qed

section \<open>Diff retrieval\<close>

text \<open>
  C10 as the specification states it: for every base, head and path the function
  returns \<open>None\<close> or the trimmed text. When git cannot be started, \<open>subprocess.run\<close>
  raises \<open>FileNotFoundError\<close>, which is not a \<open>CalledProcessError\<close>: the function
  returns nothing and the exception leaves it.
\<close>

theorem get_git_diff_raises_counterexample:
  "get_git_diff (\<lambda>command. Raised FileNotFoundError) ''aaa'' ''bbb'' ''f.py'' = Inl FileNotFoundError"
  by code_simp

text \<open>
  C10, as the code has it. For every base, head and path, \<open>get_git_diff\<close> returns
  \<open>None\<close> when the git command ends with a failure status (\<open>CalledProcessError\<close>);
  when the command completes it returns the lines of the output from the first line that
  starts with \<open>@@\<close> on, joined by line breaks, a text that starts with \<open>@@\<close> when
  the output has such a line and is the empty string when it has none; any other
  exception of the subprocess call is not caught and leaves the function.
\<close>

theorem get_git_diff_trims_meta:
  "(case run (git_command b h p) of
      CalledProcessError \<Rightarrow> get_git_diff run b h p = Inr None
    | Raised e \<Rightarrow> get_git_diff run b h p = Inl e
    | Completed out \<Rightarrow>
        (\<exists>t. get_git_diff run b h p = Inr (Some t)
           \<and> t = join [CHR 0x0A] (dropWhile (\<lambda>l. \<not> startswith l ''@@'') (splitlines out))
           \<and> (if \<exists>l \<in> set (splitlines out). startswith l ''@@''
               then startswith t ''@@'' else t = [])))"
proof (cases "run (git_command b h p)")
  case CalledProcessError
  then show ?thesis by (simp add: get_git_diff_def)
next
  case (Raised e)
  then show ?thesis by (simp add: get_git_diff_def)
next
  case (Completed out)
  let ?ls = "splitlines out"
  let ?rest = "dropWhile (\<lambda>l. \<not> startswith l ''@@'') ?ls"
  have res: "get_git_diff run b h p = Inr (Some (join [CHR 0x0A] ?rest))"
    using Completed by (simp add: get_git_diff_def Let_def drop_count_meta)
  have shape: "if \<exists>l \<in> set ?ls. startswith l ''@@''
               then startswith (join [CHR 0x0A] ?rest) ''@@'' else join [CHR 0x0A] ?rest = []"
  proof (cases "\<exists>l \<in> set ?ls. startswith l ''@@''")
    case True
    then have ne: "?rest \<noteq> []" by (auto simp: dropWhile_eq_Nil_conv)
    then obtain l ls' where eq: "?rest = l # ls'" by (cases ?rest) auto
    then have "startswith l ''@@''"
      using hd_dropWhile [of "\<lambda>l. \<not> startswith l ''@@''" ?ls] by (metis ne list.sel(1))
    then show ?thesis using True eq by (simp add: startswith_join)
  next
    case False
    then have r: "?rest = []" by (auto simp: dropWhile_eq_Nil_conv)
    show ?thesis unfolding r using False by simp
  qed
  show ?thesis using Completed res shape by simp
qed

theorem get_git_diff_trims_meta_witness:
  "get_git_diff (\<lambda>command. Completed raw_git_output) ''aaa'' ''bbb'' ''f.py'' = Inr (Some example_diff)
   \<and> startswith example_diff ''@@''
   \<and> get_git_diff (\<lambda>command. Completed ''diff --git a/f.py b/f.py'') ''aaa'' ''bbb'' ''f.py''
       = Inr (Some [])
   \<and> get_git_diff (\<lambda>command. CalledProcessError) ''aaa'' ''bbb'' ''f.py'' = Inr None
   \<and> get_git_diff (\<lambda>command. Raised UnicodeDecodeError) ''aaa'' ''bbb'' ''f.py''
       = Inl UnicodeDecodeError"
proof -
  have eval:
    "get_git_diff (\<lambda>command. Completed raw_git_output) ''aaa'' ''bbb'' ''f.py'' = Inr (Some example_diff)
     \<and> startswith example_diff ''@@''
     \<and> get_git_diff (\<lambda>command. Completed ''diff --git a/f.py b/f.py'') ''aaa'' ''bbb'' ''f.py''
         = Inr (Some [])
     \<and> get_git_diff (\<lambda>command. CalledProcessError) ''aaa'' ''bbb'' ''f.py'' = Inr None"
    by code_simp
  from get_git_diff_trims_meta [of "\<lambda>command. Raised UnicodeDecodeError" "''aaa''" "''bbb''" "''f.py''"]
  have "get_git_diff (\<lambda>command. Raised UnicodeDecodeError) ''aaa'' ''bbb'' ''f.py''
          = Inl UnicodeDecodeError"
    by simp
  with eval show ?thesis by fast
qed

section \<open>The range of a record\<close>

text \<open>
  C3 as the specification states it: the range of a record is computed by the line
  resolver, run on the diff text for each end. On the example the resolver finds neither
  line 50 nor line 51 in the diff, and the record carries both.
\<close>

theorem range_not_resolved_counterexample:
  "process_discussion (example_env (Completed raw_git_output)) None None 7 [note_P] =
     Inr (Some
       \<lparr>conversation_link = ''https://gitlab.example.com/g/p/-/merge_requests/7/#note_3'',
        first_note_date = ''2024-01-01T00:00:00.000Z'',
        note_count = 1,
        reviewers = ''A'',
        data_notes = [\<lparr>out_created_at = ''2024-01-01T00:00:00.000Z'', reviewer = ''A'',
                       out_body = ''why''\<rparr>],
        diff_text = Some example_diff,
        discussion_range =
          \<lparr>dr_start = \<lparr>side_line = Some 50, side_type = Some ''new''\<rparr>,
           dr_end = \<lparr>side_line = Some 51, side_type = Some ''new''\<rparr>\<rparr>,
        analyze = None\<rparr>)
   \<and> extract_line_from_diff example_diff 50 ''new'' = Inr None
   \<and> extract_line_from_diff example_diff 51 ''new'' = Inr None
   \<and> resolved_range_spec example_diff example_range =
       \<lparr>dr_start = \<lparr>side_line = None, side_type = None\<rparr>,
        dr_end = \<lparr>side_line = None, side_type = None\<rparr>\<rparr>"
  by code_simp

text \<open>
  C3, as the code has it. For every discussion whose first kept note carries a position
  with a line range, whose timestamps convert and whose diff retrieval returns (a text
  or the absent value, not an exception), the pipeline produces the record and reads its
  range from the line range of the position, each end by itself: the type of the end,
  and its \<open>new_line\<close> when the type is \<open>new\<close>, else its \<open>old_line\<close>. The line
  resolver is not run and the diff text has no part in the range; a line that is null at
  one end leaves the other end as it is.
\<close>

theorem discussion_range_from_anchor:
  assumes "filter_and_sort_notes rv rd d = first # rest"
      and "\<forall>n\<in>set (first # rest). \<exists>t. convert_time_format E (created_at n) = Inr t"
      and "position first = Some p"
      and "line_range p = Some lr"
      and "get_git_diff (run_git E) (base_sha p) (head_sha p) (new_path p) = Inr g"
  shows "\<exists>r. process_discussion E rv rd mr d = Inr (Some r)
           \<and> dr_start (discussion_range r) =
               \<lparr>side_line = (if ep_type (lr_start lr) = Some ''new''
                              then new_line (lr_start lr) else old_line (lr_start lr)),
                side_type = ep_type (lr_start lr)\<rparr>
           \<and> dr_end (discussion_range r) =
               \<lparr>side_line = (if ep_type (lr_end lr) = Some ''new''
                              then new_line (lr_end lr) else old_line (lr_end lr)),
                side_type = ep_type (lr_end lr)\<rparr>"
proof -
  from process_discussion_position [OF assms, of mr]
  obtain r where "process_discussion E rv rd mr d = Inr (Some r)"
    and "discussion_range r =
               \<lparr>dr_start =
                  \<lparr>side_line = (if ep_type (lr_start lr) = Some ''new''
                                 then new_line (lr_start lr) else old_line (lr_start lr)),
                   side_type = ep_type (lr_start lr)\<rparr>,
                dr_end =
                  \<lparr>side_line = (if ep_type (lr_end lr) = Some ''new''
                                 then new_line (lr_end lr) else old_line (lr_end lr)),
                   side_type = ep_type (lr_end lr)\<rparr>\<rparr>"
    by blast
  then show ?thesis by simp
qed

theorem discussion_range_from_anchor_witness:
  "filter_and_sort_notes None None [note_P] = [note_P]
   \<and> position note_P = Some example_position
   \<and> line_range example_position = Some example_range
   \<and> get_git_diff (run_git (example_env (Completed raw_git_output)))
       (base_sha example_position) (head_sha example_position) (new_path example_position)
       = Inr (Some example_diff)
   \<and> (\<exists>r. process_discussion (example_env (Completed raw_git_output)) None None 7 [note_P] = Inr (Some r)
          \<and> dr_start (discussion_range r) = \<lparr>side_line = Some 50, side_type = Some ''new''\<rparr>
          \<and> dr_end (discussion_range r) = \<lparr>side_line = Some 51, side_type = Some ''new''\<rparr>)"
proof -
  have h1: "filter_and_sort_notes None None [note_P] = [note_P]" by code_simp
  have h3: "position note_P = Some example_position" by (simp add: note_P_def)
  have h4: "line_range example_position = Some example_range" by (simp add: example_position_def)
  have h5: "get_git_diff (run_git (example_env (Completed raw_git_output)))
       (base_sha example_position) (head_sha example_position) (new_path example_position)
       = Inr (Some example_diff)"
    by code_simp
  from discussion_range_from_anchor [OF h1 example_times h3 h4 h5, of 7]
  show ?thesis using h1 h3 h4 h5 by (simp add: example_range_def)
qed

section \<open>The anchor of a record\<close>

text \<open>
  C4 as the specification states it: the anchor is taken from the first note of the
  listing that carries one, before the filter. On the example the note of \<open>A\<close> carries
  the anchor and the reviewer filter keeps only the note of \<open>B\<close>: the record has no
  diff text and an unset range.
\<close>

theorem anchor_after_filter_counterexample:
  "anchor_spec [note_P, note_B] = Some example_position
   \<and> process_discussion (example_env (Completed raw_git_output)) (Some ''B'') None 7
       [note_P, note_B] =
     Inr (Some
       \<lparr>conversation_link = ''https://gitlab.example.com/g/p/-/merge_requests/7/#note_2'',
        first_note_date = ''2024-01-01T00:00:01.000Z'',
        note_count = 1,
        reviewers = ''B'',
        data_notes = [\<lparr>out_created_at = ''2024-01-01T00:00:01.000Z'', reviewer = ''B'',
                       out_body = ''first''\<rparr>],
        diff_text = None,
        discussion_range =
          \<lparr>dr_start = \<lparr>side_line = None, side_type = None\<rparr>,
           dr_end = \<lparr>side_line = None, side_type = None\<rparr>\<rparr>,
        analyze = None\<rparr>)"
  by code_simp

text \<open>
  C4, as the code has it. The anchor of a record is the position of the first note of
  the conversation, that is, of the notes kept by the filter in the order of their
  timestamps. When that note carries no position the record has no diff text and an
  unset range, whatever the other notes of the discussion carry; when it carries a
  position with a line range and the diff retrieval for that position returns, the diff
  text and the range of the record come from that position.
\<close>

theorem anchor_of_first_kept_note:
  assumes conv: "filter_and_sort_notes rv rd d = first # rest"
      and times: "\<forall>n\<in>set (first # rest). \<exists>t. convert_time_format E (created_at n) = Inr t"
  shows "(position first = None \<longrightarrow>
            (\<exists>r. process_discussion E rv rd mr d = Inr (Some r)
                \<and> diff_text r = None \<and> discussion_range r = unset_range))
       \<and> (\<forall>p lr g. position first = Some p \<and> line_range p = Some lr
              \<and> get_git_diff (run_git E) (base_sha p) (head_sha p) (new_path p) = Inr g \<longrightarrow>
            (\<exists>r. process_discussion E rv rd mr d = Inr (Some r)
                \<and> diff_text r =
                    (case g of None \<Rightarrow> None | Some t \<Rightarrow> if t = [] then None else Some t)
                \<and> discussion_range r =
                    \<lparr>dr_start =
                       \<lparr>side_line = (if ep_type (lr_start lr) = Some ''new''
                                      then new_line (lr_start lr) else old_line (lr_start lr)),
                        side_type = ep_type (lr_start lr)\<rparr>,
                     dr_end =
                       \<lparr>side_line = (if ep_type (lr_end lr) = Some ''new''
                                      then new_line (lr_end lr) else old_line (lr_end lr)),
                        side_type = ep_type (lr_end lr)\<rparr>\<rparr>))"
  using process_discussion_no_position [OF conv times, of mr]
        process_discussion_position [OF conv times, of _ _ _ mr]
  by blast

theorem anchor_of_first_kept_note_witness:
  "filter_and_sort_notes (Some ''B'') None [note_P, note_B] = [note_B]
   \<and> position note_B = None
   \<and> (\<exists>r. process_discussion (example_env (Completed raw_git_output)) (Some ''B'') None 7
             [note_P, note_B] = Inr (Some r)
          \<and> diff_text r = None \<and> discussion_range r = unset_range)
   \<and> filter_and_sort_notes None None [note_P, note_B] = [note_P, note_B]
   \<and> position note_P = Some example_position
   \<and> line_range example_position = Some example_range
   \<and> get_git_diff (run_git (example_env (Completed raw_git_output)))
       (base_sha example_position) (head_sha example_position) (new_path example_position)
       = Inr (Some example_diff)
   \<and> (\<exists>r. process_discussion (example_env (Completed raw_git_output)) None None 7
             [note_P, note_B] = Inr (Some r)
          \<and> diff_text r = Some example_diff
          \<and> discussion_range r =
              \<lparr>dr_start = \<lparr>side_line = Some 50, side_type = Some ''new''\<rparr>,
               dr_end = \<lparr>side_line = Some 51, side_type = Some ''new''\<rparr>\<rparr>)"
proof -
  have h1: "filter_and_sort_notes (Some ''B'') None [note_P, note_B] = [note_B]" by code_simp
  have h2: "position note_B = None" by (simp add: note_B_def)
  have g1: "filter_and_sort_notes None None [note_P, note_B] = [note_P, note_B]" by code_simp
  have g2: "position note_P = Some example_position" by (simp add: note_P_def)
  have g3: "line_range example_position = Some example_range" by (simp add: example_position_def)
  have g4: "get_git_diff (run_git (example_env (Completed raw_git_output)))
              (base_sha example_position) (head_sha example_position) (new_path example_position)
            = Inr (Some example_diff)"
    by code_simp
  have g5: "example_diff \<noteq> []" by code_simp
  from anchor_of_first_kept_note [OF h1 example_times, of "Completed raw_git_output" 7] h2
  have a: "\<exists>r. process_discussion (example_env (Completed raw_git_output)) (Some ''B'') None 7
             [note_P, note_B] = Inr (Some r)
          \<and> diff_text r = None \<and> discussion_range r = unset_range"
    by blast
  from anchor_of_first_kept_note [OF g1 example_times, of "Completed raw_git_output" 7] g2 g3 g4
  have "\<exists>r. process_discussion (example_env (Completed raw_git_output)) None None 7
             [note_P, note_B] = Inr (Some r)
          \<and> diff_text r =
              (case Some example_diff of
                 None \<Rightarrow> None
               | Some t \<Rightarrow> if t = [] then None else Some t)
          \<and> discussion_range r =
              \<lparr>dr_start =
                 \<lparr>side_line = (if ep_type (lr_start example_range) = Some ''new''
                                then new_line (lr_start example_range)
                                else old_line (lr_start example_range)),
                  side_type = ep_type (lr_start example_range)\<rparr>,
               dr_end =
                 \<lparr>side_line = (if ep_type (lr_end example_range) = Some ''new''
                                then new_line (lr_end example_range)
                                else old_line (lr_end example_range)),
                  side_type = ep_type (lr_end example_range)\<rparr>\<rparr>"
    by blast
  then have b: "\<exists>r. process_discussion (example_env (Completed raw_git_output)) None None 7
             [note_P, note_B] = Inr (Some r)
          \<and> diff_text r = Some example_diff
          \<and> discussion_range r =
              \<lparr>dr_start = \<lparr>side_line = Some 50, side_type = Some ''new''\<rparr>,
               dr_end = \<lparr>side_line = Some 51, side_type = Some ''new''\<rparr>\<rparr>"
    using g5 by (simp add: example_range_def)
  show ?thesis using h1 h2 a g1 g2 g3 g4 b by blast
qed

section \<open>A diff that is absent\<close>

text \<open>
  C5 as the specification states it: both the diff text and the range of a record are
  unset when the diff is absent. On the example the git command fails: the record has no
  diff text, and its range is the one of the anchor.
\<close>

theorem absent_diff_counterexample:
  "get_git_diff (run_git (example_env CalledProcessError)) ''aaa'' ''bbb'' ''f.py'' = Inr None
   \<and> process_discussion (example_env CalledProcessError) None None 7 [note_P] =
     Inr (Some
       \<lparr>conversation_link = ''https://gitlab.example.com/g/p/-/merge_requests/7/#note_3'',
        first_note_date = ''2024-01-01T00:00:00.000Z'',
        note_count = 1,
        reviewers = ''A'',
        data_notes = [\<lparr>out_created_at = ''2024-01-01T00:00:00.000Z'', reviewer = ''A'',
                       out_body = ''why''\<rparr>],
        diff_text = None,
        discussion_range =
          \<lparr>dr_start = \<lparr>side_line = Some 50, side_type = Some ''new''\<rparr>,
           dr_end = \<lparr>side_line = Some 51, side_type = Some ''new''\<rparr>\<rparr>,
        analyze = None\<rparr>)
   \<and> \<lparr>dr_start = \<lparr>side_line = Some 50, side_type = Some ''new''\<rparr>,
       dr_end = \<lparr>side_line = Some 51, side_type = Some ''new''\<rparr>\<rparr> \<noteq> unset_range"
  by code_simp

text \<open>
  C5, as the code has it. When \<open>get_git_diff\<close> returns \<open>None\<close> for the anchor of a
  discussion (a position with a line range, on the first kept note), the record is
  produced with no diff text and with the range read from the anchor, and the loop goes
  on with the next discussion: the result for the discussions is this record followed
  by the result for the remaining ones.
\<close>

theorem absent_diff_keeps_range:
  assumes conv: "filter_and_sort_notes rv rd d = first # rest"
      and times: "\<forall>n\<in>set (first # rest). \<exists>t. convert_time_format E (created_at n) = Inr t"
      and pos: "position first = Some p"
      and lr: "line_range p = Some lr"
      and absent: "get_git_diff (run_git E) (base_sha p) (head_sha p) (new_path p) = Inr None"
  shows "\<exists>r. process_discussion E rv rd mr d = Inr (Some r)
           \<and> diff_text r = None
           \<and> discussion_range r =
               \<lparr>dr_start =
                  \<lparr>side_line = (if ep_type (lr_start lr) = Some ''new''
                                 then new_line (lr_start lr) else old_line (lr_start lr)),
                   side_type = ep_type (lr_start lr)\<rparr>,
                dr_end =
                  \<lparr>side_line = (if ep_type (lr_end lr) = Some ''new''
                                 then new_line (lr_end lr) else old_line (lr_end lr)),
                   side_type = ep_type (lr_end lr)\<rparr>\<rparr>
           \<and> process_discussions E rv rd mr (d # ds) =
               (case process_discussions E rv rd mr ds of
                  Inl e \<Rightarrow> Inl e
                | Inr rs \<Rightarrow> Inr (r # rs))"
proof -
  from process_discussion_position [OF conv times pos lr absent, of mr]
  obtain r where r: "process_discussion E rv rd mr d = Inr (Some r)"
    and dt: "diff_text r = None"
    and dr: "discussion_range r =
               \<lparr>dr_start =
                  \<lparr>side_line = (if ep_type (lr_start lr) = Some ''new''
                                 then new_line (lr_start lr) else old_line (lr_start lr)),
                   side_type = ep_type (lr_start lr)\<rparr>,
                dr_end =
                  \<lparr>side_line = (if ep_type (lr_end lr) = Some ''new''
                                 then new_line (lr_end lr) else old_line (lr_end lr)),
                   side_type = ep_type (lr_end lr)\<rparr>\<rparr>"
    by auto
  with process_discussions_step [OF r, of ds] show ?thesis by blast
qed

theorem absent_diff_keeps_range_witness:
  "filter_and_sort_notes None None [note_P] = [note_P]
   \<and> position note_P = Some example_position
   \<and> line_range example_position = Some example_range
   \<and> get_git_diff (run_git (example_env CalledProcessError))
       (base_sha example_position) (head_sha example_position) (new_path example_position)
       = Inr None
   \<and> (\<exists>r. process_discussion (example_env CalledProcessError) None None 7 [note_P] = Inr (Some r)
          \<and> diff_text r = None
          \<and> discussion_range r =
              \<lparr>dr_start = \<lparr>side_line = Some 50, side_type = Some ''new''\<rparr>,
               dr_end = \<lparr>side_line = Some 51, side_type = Some ''new''\<rparr>\<rparr>
          \<and> process_discussions (example_env CalledProcessError) None None 7 [[note_P], [note_B]] =
              (case process_discussions (example_env CalledProcessError) None None 7 [[note_B]] of
                 Inl e \<Rightarrow> Inl e
               | Inr rs \<Rightarrow> Inr (r # rs)))"
proof -
  have h1: "filter_and_sort_notes None None [note_P] = [note_P]" by code_simp
  have h3: "position note_P = Some example_position" by (simp add: note_P_def)
  have h4: "line_range example_position = Some example_range" by (simp add: example_position_def)
  have h5: "get_git_diff (run_git (example_env CalledProcessError))
       (base_sha example_position) (head_sha example_position) (new_path example_position)
       = Inr None"
    by code_simp
  from absent_diff_keeps_range [OF h1 example_times h3 h4 h5, of 7 "[[note_B]]"]
  show ?thesis using h1 h3 h4 h5 by (simp add: example_range_def)
qed

section \<open>A header that cannot be parsed\<close>




end
